theory Spec2Isabelle
  imports Complex_Main "HOL-Library.AList"
begin

section \<open>Data model\<close>

text \<open>
  The sentiment labels handled by the pages are the Python strings
  \<^verbatim>\<open>"positive"\<close>, \<^verbatim>\<open>"negative"\<close> and \<^verbatim>\<open>"neutral"\<close>.
\<close>

datatype sentiment = Positive | Negative | Neutral

text \<open>
  A scraped review is a Python dict that the pages read with
  \<^verbatim>\<open>review.get('body', '')\<close> and \<^verbatim>\<open>reviews[0].get('product_title', 'Amazon Product')\<close>:
  either key may be missing, which is the value \<open>None\<close> of the field.
\<close>

record review =
  body :: "string option"
  product_title :: "string option"

record classification =
  label :: sentiment
  confidence :: real

type_synonym detail = "review \<times> classification"

text \<open>
  The dict returned by \<^verbatim>\<open>analyzer.analyze_reviews\<close>. The keys
  \<^verbatim>\<open>overall_sentiment\<close>, \<^verbatim>\<open>score\<close>, \<^verbatim>\<open>positive_count\<close>, \<^verbatim>\<open>negative_count\<close> and
  \<^verbatim>\<open>detailed_results\<close> are read by subscript; \<^verbatim>\<open>model_name\<close> and
  \<^verbatim>\<open>average_confidence\<close> are read with \<^verbatim>\<open>.get\<close>, so they are optional fields.
  Floats are modelled as reals.
\<close>

record results =
  overall_sentiment :: sentiment
  score :: real
  positive_count :: int
  negative_count :: int
  average_confidence :: "real option"
  detailed_results :: "detail list"
  model_name :: "string option"

text \<open>
  \<^verbatim>\<open>st.session_state\<close>: a dict from string keys to figures, strings and booleans.
  It is an association list in insertion order, because the Try Again handlers
  iterate over \<^verbatim>\<open>list(st.session_state.keys())\<close>. The figure type belongs to the
  charting library and is a type parameter.
\<close>

datatype 'f session_value = Fig 'f | Str string | Flag bool

type_synonym 'f session_state = "(string \<times> 'f session_value) list"

text \<open>
  The module-level \<^verbatim>\<open>analyzer = SentimentAnalyzer()\<close>. Its class lives in
  \<^verbatim>\<open>src.models.model_integration\<close>; the pages use two of its methods, which are
  the two fields.
\<close>

record 'f sentiment_analyzer =
  analyze_reviews :: "review list \<Rightarrow> results"
  create_visualizations :: "results \<Rightarrow> 'f \<times> 'f"

section \<open>app.py\<close>

text \<open>
  \<^verbatim>\<open>predict_sentiment_from_reviews(reviews)\<close>, with the global analyzer and the
  session state made explicit. \<open>format_2f\<close> is Python's \<^verbatim>\<open>f"{x:.2f}"\<close>.
  The test \<^verbatim>\<open>if avg_confidence:\<close> is false for \<^verbatim>\<open>None\<close> and for \<^verbatim>\<open>0.0\<close>.
\<close>

definition predict_sentiment_from_reviews ::
  "'f sentiment_analyzer \<Rightarrow> (real \<Rightarrow> string) \<Rightarrow> 'f session_state \<Rightarrow> review list \<Rightarrow>
     'f session_state \<times> (sentiment \<times> real \<times> int \<times> int \<times> detail list \<times> string)" where
  "predict_sentiment_from_reviews analyzer format_2f st reviews =
     (let res = analyze_reviews analyzer reviews;
          sentiment = overall_sentiment res;
          score = score res;
          pos_count = positive_count res;
          neg_count = negative_count res;
          model_name = (case model_name res of None \<Rightarrow> ''Sentiment Model'' | Some n \<Rightarrow> n);
          avg_confidence = average_confidence res;
          figs = create_visualizations analyzer res;
          st1 = AList.update ''sentiment_distribution'' (Fig (fst figs)) st;
          st2 = AList.update ''sentiment_score'' (Fig (snd figs)) st1;
          st3 = AList.update ''model_name'' (Str model_name) st2;
          st4 = (case avg_confidence of
                   None \<Rightarrow> st3
                 | Some c \<Rightarrow>
                     if c \<noteq> 0 then AList.update ''avg_confidence'' (Str (format_2f c)) st3
                     else st3)
      in (st4, (sentiment, score, pos_count, neg_count, detailed_results res, model_name)))"

text \<open>
  The effects of one call of \<^verbatim>\<open>predict_sentiment_from_reviews\<close>, in the order of its
  statements: an assignment to \<^verbatim>\<open>st.session_state[key]\<close> is a \<open>SessionWrite\<close>, a call that
  shows something on the page (\<^verbatim>\<open>st.warning\<close>, \<^verbatim>\<open>st.write\<close>, \<^verbatim>\<open>st.markdown\<close>, ...) is a
  \<open>Display\<close>. The function has four assignments (app.py, lines 43 to 48) and no call of
  the second kind. \<open>run_effect\<close> carries an effect out on a session and a page.
\<close>

datatype 'f effect = SessionWrite string "'f session_value" | Display string

definition predict_effects ::
  "'f sentiment_analyzer \<Rightarrow> (real \<Rightarrow> string) \<Rightarrow> review list \<Rightarrow> 'f effect list" where
  "predict_effects analyzer format_2f reviews =
     (let res = analyze_reviews analyzer reviews;
          model_name = (case model_name res of None \<Rightarrow> ''Sentiment Model'' | Some n \<Rightarrow> n);
          avg_confidence = average_confidence res;
          figs = create_visualizations analyzer res
      in [SessionWrite ''sentiment_distribution'' (Fig (fst figs)),
          SessionWrite ''sentiment_score'' (Fig (snd figs)),
          SessionWrite ''model_name'' (Str model_name)] @
         (case avg_confidence of
            None \<Rightarrow> []
          | Some c \<Rightarrow>
              if c \<noteq> 0 then [SessionWrite ''avg_confidence'' (Str (format_2f c))] else []))"

fun run_effect ::
  "'f effect \<Rightarrow> 'f session_state \<times> string list \<Rightarrow> 'f session_state \<times> string list" where
  "run_effect (SessionWrite key v) (st, page) = (AList.update key v st, page)"
| "run_effect (Display msg) (st, page) = (st, page @ [msg])"

text \<open>
  The branch of \<^verbatim>\<open>show_results_page\<close> that follows the scraping (app.py, lines 116 to
  122; the same seven lines are lines 46 to 52 of pages/1\_Results.py). It returns the
  session, the warning shown if any, the six variables and the product title.
\<close>

definition analyze_or_default ::
  "'f sentiment_analyzer \<Rightarrow> (real \<Rightarrow> string) \<Rightarrow> 'f session_state \<Rightarrow> review list \<Rightarrow>
     'f session_state \<times> string option \<times>
     (sentiment \<times> real \<times> int \<times> int \<times> detail list \<times> string) \<times> string" where
  "analyze_or_default analyzer format_2f st reviews =
     (case reviews of
        r # _ \<Rightarrow>
          (let (st', out) = predict_sentiment_from_reviews analyzer format_2f st reviews;
               title = (case product_title r of None \<Rightarrow> ''Amazon Product'' | Some t \<Rightarrow> t)
           in (st', None, out, title))
      | [] \<Rightarrow>
          (st, Some ''No reviews found or failed to scrape reviews.'',
           (Neutral, 0.5, 0, 0, [], ''No Model''), ''Amazon Product''))"

text \<open>
  The Try Again handler of \<^verbatim>\<open>show_results_page\<close>: the loop over the keys, then the
  two assignments. The keys of a dict are distinct, so each key is present when the loop
  deletes it and \<^verbatim>\<open>del\<close> cannot raise.
\<close>

definition delete_all_but_current_view :: "'f session_state \<Rightarrow> 'f session_state" where
  "delete_all_but_current_view st =
     fold (\<lambda>key s. if key \<noteq> ''current_view'' then AList.delete key s else s) (map fst st) st"

definition try_again_app :: "'f session_state \<Rightarrow> 'f session_state" where
  "try_again_app st =
     AList.update ''page_refresh'' (Flag True)
       (AList.update ''current_view'' (Str ''input'') (delete_all_but_current_view st))"

section \<open>pages/1\_Results.py\<close>

text \<open>
  The Try Again handler of the results page: every key is deleted, then
  \<^verbatim>\<open>st.experimental_rerun()\<close> restarts the script with the session that is returned.
\<close>

definition try_again_results :: "'f session_state \<Rightarrow> 'f session_state" where
  "try_again_results st = fold (\<lambda>key s. AList.delete key s) (map fst st) st"

section \<open>The analyzer of the specification\<close>

text \<open>
  The class \<^verbatim>\<open>SentimentAnalyzer\<close> of \<^verbatim>\<open>src.models.model_integration\<close> is not among
  the sources. The definitions of this section follow the specification's component
  SentimentAggregator instead.
\<close>

datatype classifier_error = ClassificationFailure | MalformedReview

text \<open>
  Modelled from the spec: the neutral, zero-confidence Classification that replaces a
  failed or impossible classification (\<^verbatim>\<open>SentimentAnalyzer\<close> is missing).
\<close>

definition neutral_zero :: classification where
  "neutral_zero = \<lparr>label = Neutral, confidence = 0\<rparr>"

text \<open>
  Modelled from the spec: the classification of one review by the external capability
  \<^verbatim>\<open>classify(text) -> Classification\<close>, which may signal an error (\<^verbatim>\<open>SentimentAnalyzer\<close>
  is missing). A missing or empty body is classified neutral with zero confidence; so is
  a review for which the classifier fails.
\<close>

definition classify_review ::
  "(string \<Rightarrow> classifier_error + classification) \<Rightarrow> review \<Rightarrow> classification" where
  "classify_review classify r =
     (case body r of
        None \<Rightarrow> neutral_zero
      | Some text \<Rightarrow>
          if text = [] then neutral_zero
          else (case classify text of Inl e \<Rightarrow> neutral_zero | Inr c \<Rightarrow> c))"

text \<open>
  Modelled from the spec: the call of the classifier on one review as a step that can
  fail, with the error taxonomy of section 7 (\<^verbatim>\<open>SentimentAnalyzer\<close> is missing). A
  review without a usable body is a MalformedReview; otherwise the outcome is the
  classifier's.
\<close>

definition classify_call ::
  "(string \<Rightarrow> classifier_error + classification) \<Rightarrow> review \<Rightarrow>
     classifier_error + classification" where
  "classify_call classify r =
     (case body r of
        None \<Rightarrow> Inl MalformedReview
      | Some text \<Rightarrow> if text = [] then Inl MalformedReview else classify text)"

text \<open>
  Modelled from the spec: the same step with the local recovery of sections 4.1 and 7
  around it, every failure being replaced by the neutral, zero-confidence
  Classification (\<^verbatim>\<open>SentimentAnalyzer\<close> is missing).
\<close>

definition classify_guarded ::
  "(string \<Rightarrow> classifier_error + classification) \<Rightarrow> review \<Rightarrow>
     classifier_error + classification" where
  "classify_guarded classify r =
     (case classify_call classify r of Inl e \<Rightarrow> Inr neutral_zero | Inr c \<Rightarrow> Inr c)"

text \<open>
  Modelled from the spec: the batch as a loop over the reviews in which an error that a
  step lets through ends the loop and becomes the outcome of the batch, as an exception
  would (\<^verbatim>\<open>SentimentAnalyzer\<close> is missing).
\<close>

fun classify_batch ::
  "(review \<Rightarrow> classifier_error + classification) \<Rightarrow> review list \<Rightarrow>
     classifier_error + detail list" where
  "classify_batch step [] = Inr []"
| "classify_batch step (r # rs) =
     (case step r of
        Inl e \<Rightarrow> Inl e
      | Inr c \<Rightarrow>
          (case classify_batch step rs of
             Inl e \<Rightarrow> Inl e
           | Inr ds \<Rightarrow> Inr ((r, c) # ds)))"

definition count_label :: "sentiment \<Rightarrow> detail list \<Rightarrow> int" where
  "count_label l ds = int (length (filter (\<lambda>d. label (snd d) = l) ds))"

text \<open>
  Modelled from the spec: \<^verbatim>\<open>analyze(reviews) -> AggregateResult\<close>, the reduction of
  section 4.1 (\<^verbatim>\<open>SentimentAnalyzer.analyze_reviews\<close> is missing). The default result of
  the empty input names no model.
\<close>

definition analyze ::
  "(string \<Rightarrow> classifier_error + classification) \<Rightarrow> string \<Rightarrow> review list \<Rightarrow> results" where
  "analyze classify name reviews =
     (if reviews = [] then
        \<lparr>overall_sentiment = Neutral, score = 0.5, positive_count = 0, negative_count = 0,
         average_confidence = None, detailed_results = [], model_name = None\<rparr>
      else
        (let ds = map (\<lambda>r. (r, classify_review classify r)) reviews;
             pos = count_label Positive ds;
             neg = count_label Negative ds
         in \<lparr>overall_sentiment =
               (if neg < pos then Positive else if pos < neg then Negative else Neutral),
             score = (if pos + neg \<noteq> 0 then real_of_int pos / real_of_int (pos + neg) else 0.5),
             positive_count = pos,
             negative_count = neg,
             average_confidence =
               Some (sum_list (map (\<lambda>d. confidence (snd d)) ds) / real (length ds)),
             detailed_results = ds,
             model_name = Some name\<rparr>))"

text \<open>
  Modelled from the spec: the visualization derivation of section 4.1, a categorical
  distribution over the three buckets and a separate score indicator
  (\<^verbatim>\<open>SentimentAnalyzer.create_visualizations\<close> is missing).
\<close>

datatype figure = Distribution int int int | ScoreIndicator real

definition derive_visualizations :: "results \<Rightarrow> figure \<times> figure" where
  "derive_visualizations res =
     (Distribution (positive_count res) (negative_count res)
        (int (length (detailed_results res)) - positive_count res - negative_count res),
      ScoreIndicator (score res))"

definition spec_analyzer ::
  "(string \<Rightarrow> classifier_error + classification) \<Rightarrow> string \<Rightarrow> figure sentiment_analyzer" where
  "spec_analyzer classify name =
     \<lparr>analyze_reviews = analyze classify name, create_visualizations = derive_visualizations\<rparr>"

section \<open>Scenarios of the specification\<close>

text \<open>
  Scenario A: three reviews, classified positive, negative and neutral at confidence
  0.9, 0.8 and 0.5. Any other text makes this classifier fail.
\<close>

definition scenario_classify :: "string \<Rightarrow> classifier_error + classification" where
  "scenario_classify text =
     (if text = ''Great product, love it!'' then Inr \<lparr>label = Positive, confidence = 0.9\<rparr>
      else if text = ''Terrible, broke in a day'' then Inr \<lparr>label = Negative, confidence = 0.8\<rparr>
      else if text = ''It is okay'' then Inr \<lparr>label = Neutral, confidence = 0.5\<rparr>
      else Inl ClassificationFailure)"

definition review_of :: "string \<Rightarrow> review" where
  "review_of text = \<lparr>body = Some text, product_title = None\<rparr>"

definition scenario_a :: "review list" where
  "scenario_a =
     [review_of ''Great product, love it!'', review_of ''Terrible, broke in a day'',
      review_of ''It is okay'']"

text \<open>Scenario C: one review on which the classifier fails.\<close>

definition scenario_c :: "review list" where
  "scenario_c = [review_of ''unreadable'']"

text \<open>Scenario D: three positive reviews and a negative one.\<close>

definition scenario_d :: "review list" where
  "scenario_d =
     [review_of ''Great product, love it!'', review_of ''Great product, love it!'',
      review_of ''Terrible, broke in a day'', review_of ''Great product, love it!'']"

text \<open>
  Scenario C inside a batch: the classifier fails on the second of three reviews.
\<close>

definition scenario_c_batch :: "review list" where
  "scenario_c_batch =
     [review_of ''Great product, love it!'', review_of ''unreadable'',
      review_of ''Terrible, broke in a day'']"

text \<open>
  The closed examples need some formatter for \<^verbatim>\<open>f"{x:.2f}"\<close>; which string it produces
  plays no role in them.
\<close>

definition scenario_format :: "real \<Rightarrow> string" where
  "scenario_format c = (if c = 11 / 15 then ''0.73'' else ''0.50'')"

text \<open>A session as the input page leaves it after a link was submitted.\<close>

definition scenario_session :: "figure session_state" where
  "scenario_session =
     [(''current_view'', Str ''results''), (''page_refresh'', Flag False),
      (''product_link'', Str ''https://www.amazon.com/dp/B000''),
      (''submitted_link'', Str ''https://www.amazon.com/dp/B000'')]"

text \<open>An analyzer that reports the same results without an average confidence.\<close>

definition without_average :: "'f sentiment_analyzer \<Rightarrow> 'f sentiment_analyzer" where
  "without_average an =
     an\<lparr>analyze_reviews := \<lambda>rs. (analyze_reviews an rs)\<lparr>average_confidence := None\<rparr>\<rparr>"

section \<open>Try Again\<close>

lemma fold_delete_guarded:
  "fold (\<lambda>key s. if key \<noteq> c then AList.delete key s else s) ks al =
     filter (\<lambda>p. fst p = c \<or> fst p \<notin> set ks) al"
proof (induction ks arbitrary: al)
  case Nil
  show ?case by simp
next
  case (Cons k ks)
  show ?case
    by (auto simp: Cons.IH AList.delete_eq intro!: filter_cong)
qed

lemma fold_delete_all:
  "fold (\<lambda>key s. AList.delete key s) ks al = filter (\<lambda>p. fst p \<notin> set ks) al"
proof (induction ks arbitrary: al)
  case Nil
  show ?case by simp
next
  case (Cons k ks)
  have "filter (\<lambda>p. fst p \<notin> set ks) (AList.delete k al) =
        filter (\<lambda>p. fst p \<notin> set (k # ks)) al"
    by (auto simp: AList.delete_eq intro!: filter_cong)
  then show ?case
    by (simp add: Cons.IH)
qed

lemma delete_all_but_current_view_eq:
  "delete_all_but_current_view st = filter (\<lambda>p. fst p = ''current_view'') st"
  unfolding delete_all_but_current_view_def fold_delete_guarded
  by (rule filter_cong) auto

lemma try_again_results_eq: "try_again_results st = []"
  unfolding try_again_results_def fold_delete_all
  by (simp add: filter_empty_conv)

lemma map_of_filter_key:
  "map_of (filter (\<lambda>p. fst p = c) al) k = (if k = c then map_of al k else None)"
  by (induction al) auto

section \<open>Facts about predict\_sentiment\_from\_reviews\<close>

lemma predict_out:
  "snd (predict_sentiment_from_reviews an fmt st rs) =
     (overall_sentiment (analyze_reviews an rs), score (analyze_reviews an rs),
      positive_count (analyze_reviews an rs), negative_count (analyze_reviews an rs),
      detailed_results (analyze_reviews an rs),
      (case model_name (analyze_reviews an rs) of None \<Rightarrow> ''Sentiment Model'' | Some n \<Rightarrow> n))"
  by (simp add: predict_sentiment_from_reviews_def Let_def)

lemma predict_session:
  "map_of (fst (predict_sentiment_from_reviews an fmt st rs)) k =
     (if k = ''avg_confidence'' then
        (case average_confidence (analyze_reviews an rs) of
           None \<Rightarrow> map_of st k
         | Some c \<Rightarrow> if c \<noteq> 0 then Some (Str (fmt c)) else map_of st k)
      else if k = ''model_name'' then
        Some (Str (case model_name (analyze_reviews an rs) of
                     None \<Rightarrow> ''Sentiment Model'' | Some n \<Rightarrow> n))
      else if k = ''sentiment_score'' then
        Some (Fig (snd (create_visualizations an (analyze_reviews an rs))))
      else if k = ''sentiment_distribution'' then
        Some (Fig (fst (create_visualizations an (analyze_reviews an rs))))
      else map_of st k)"
  by (simp add: predict_sentiment_from_reviews_def Let_def AList.update_conv'
      split: option.split)

lemma predict_idem:
  "predict_sentiment_from_reviews an fmt (fst (predict_sentiment_from_reviews an fmt st rs)) rs =
   predict_sentiment_from_reviews an fmt st rs"
proof -
  let ?st = "fst (predict_sentiment_from_reviews an fmt st rs)"
  let ?res = "analyze_reviews an rs"
  have 1: "AList.update ''sentiment_distribution'' (Fig (fst (create_visualizations an ?res))) ?st = ?st"
    by (rule AList.update_triv) (simp add: predict_session)
  have 2: "AList.update ''sentiment_score'' (Fig (snd (create_visualizations an ?res))) ?st = ?st"
    by (rule AList.update_triv) (simp add: predict_session)
  have 3: "AList.update ''model_name''
             (Str (case model_name ?res of None \<Rightarrow> ''Sentiment Model'' | Some n \<Rightarrow> n)) ?st = ?st"
    by (rule AList.update_triv) (simp add: predict_session)
  have 4: "average_confidence ?res = Some c \<Longrightarrow> c \<noteq> 0 \<Longrightarrow>
           AList.update ''avg_confidence'' (Str (fmt c)) ?st = ?st" for c
    by (rule AList.update_triv) (simp add: predict_session)
  have "fst (predict_sentiment_from_reviews an fmt ?st rs) = ?st"
    unfolding predict_sentiment_from_reviews_def[of an fmt ?st rs] Let_def fst_conv
    by (simp add: 1 2 3 4 split: option.split)
  moreover have "snd (predict_sentiment_from_reviews an fmt ?st rs) =
                 snd (predict_sentiment_from_reviews an fmt st rs)"
    by (simp add: predict_out)
  ultimately show ?thesis
    by (simp add: prod_eq_iff)
qed

lemma predict_effects_run:
  "fold run_effect (predict_effects an fmt rs) (st, page) =
     (fst (predict_sentiment_from_reviews an fmt st rs), page)"
  by (simp add: predict_effects_def predict_sentiment_from_reviews_def Let_def
      split: option.split)

lemma predict_effects_no_display: "Display msg \<notin> set (predict_effects an fmt rs)"
  by (auto simp: predict_effects_def Let_def split: option.splits if_splits)

section \<open>Facts about the analyzer of the specification\<close>

lemma analyze_detailed:
  "detailed_results (analyze classify name reviews) =
     map (\<lambda>r. (r, classify_review classify r)) reviews"
  by (simp add: analyze_def Let_def)

lemma analyze_positive_count:
  "positive_count (analyze classify name reviews) =
     count_label Positive (detailed_results (analyze classify name reviews))"
  by (simp add: analyze_def Let_def count_label_def)

lemma analyze_negative_count:
  "negative_count (analyze classify name reviews) =
     count_label Negative (detailed_results (analyze classify name reviews))"
  by (simp add: analyze_def Let_def count_label_def)

lemma analyze_overall:
  "reviews \<noteq> [] \<Longrightarrow>
   overall_sentiment (analyze classify name reviews) =
     (if negative_count (analyze classify name reviews) < positive_count (analyze classify name reviews)
      then Positive
      else if positive_count (analyze classify name reviews) < negative_count (analyze classify name reviews)
      then Negative else Neutral)"
  by (simp add: analyze_def Let_def)

lemma analyze_score:
  "reviews \<noteq> [] \<Longrightarrow>
   score (analyze classify name reviews) =
     (if positive_count (analyze classify name reviews) + negative_count (analyze classify name reviews) \<noteq> 0
      then real_of_int (positive_count (analyze classify name reviews)) /
           real_of_int (positive_count (analyze classify name reviews) +
                        negative_count (analyze classify name reviews))
      else 0.5)"
  by (simp add: analyze_def Let_def)

lemma analyze_model_name:
  "reviews \<noteq> [] \<Longrightarrow> model_name (analyze classify name reviews) = Some name"
  by (simp add: analyze_def Let_def)

lemma count_label_total:
  "count_label Positive ds + count_label Negative ds + count_label Neutral ds = int (length ds)"
proof (induction ds)
  case Nil
  show ?case by (simp add: count_label_def)
next
  case (Cons d ds)
  then show ?case
    by (cases "label (snd d)") (simp_all add: count_label_def)
qed

lemma count_label_nonneg: "0 \<le> count_label l ds"
  by (simp add: count_label_def)

lemma count_label_labels:
  "count_label l ds = int (length (filter (\<lambda>x. x = l) (map (\<lambda>d. label (snd d)) ds)))"
  by (simp add: count_label_def filter_map comp_def)

lemma spec_analyzer_out:
  "reviews \<noteq> [] \<Longrightarrow>
   snd (predict_sentiment_from_reviews (spec_analyzer classify name) fmt st reviews) =
     (overall_sentiment (analyze classify name reviews), score (analyze classify name reviews),
      positive_count (analyze classify name reviews),
      negative_count (analyze classify name reviews),
      detailed_results (analyze classify name reviews), name)"
  by (simp add: predict_out spec_analyzer_def analyze_model_name)

lemma analyze_or_default_out:
  "fst (snd (snd (analyze_or_default an fmt st rs))) =
     (if rs = [] then (Neutral, 0.5, 0, 0, [], ''No Model'')
      else snd (predict_sentiment_from_reviews an fmt st rs))"
  by (simp add: analyze_or_default_def split: list.split prod.split)

lemma analyze_or_default_idem:
  "analyze_or_default an fmt (fst (analyze_or_default an fmt st rs)) rs =
   analyze_or_default an fmt st rs"
proof (cases rs)
  case Nil
  then show ?thesis
    by (simp add: analyze_or_default_def)
next
  case (Cons r rs')
  have "analyze_or_default an fmt s rs =
      (fst (predict_sentiment_from_reviews an fmt s rs), None,
       snd (predict_sentiment_from_reviews an fmt s rs),
       (case product_title r of None \<Rightarrow> ''Amazon Product'' | Some t \<Rightarrow> t))" for s
    using Cons by (simp add: analyze_or_default_def split: prod.split)
  then show ?thesis
    by (simp add: predict_idem)
qed

lemma classify_guarded_eq:
  "classify_guarded classify r = Inr (classify_review classify r)"
  by (simp add: classify_guarded_def classify_call_def classify_review_def
      split: option.split sum.split)

lemma classify_batch_guarded:
  "classify_batch (classify_guarded classify) rs =
     Inr (map (\<lambda>r. (r, classify_review classify r)) rs)"
  by (induction rs) (simp_all add: classify_guarded_eq)

text \<open>
  Without the recovery the loop does abort: a failing review anywhere in the batch makes
  the error the outcome of the whole batch.
\<close>

lemma classify_batch_aborts:
  "i < length rs \<Longrightarrow> classify_call classify (rs ! i) = Inl e \<Longrightarrow>
   \<exists>e'. classify_batch (classify_call classify) rs = Inl e'"
proof (induction rs arbitrary: i)
  case Nil
  then show ?case by simp
next
  case (Cons r rs)
  show ?case
  proof (cases i)
    case 0
    with Cons.prems show ?thesis by simp
  next
    case (Suc j)
    with Cons.prems have "j < length rs" and "classify_call classify (rs ! j) = Inl e"
      by simp_all
    from Cons.IH[OF this] obtain e' where "classify_batch (classify_call classify) rs = Inl e'"
      by blast
    then show ?thesis
      by (simp split: sum.split)
  qed
qed

lemma analyze_counts_all:
  "positive_count (analyze classify name reviews) =
     int (length (filter (\<lambda>r. label (classify_review classify r) = Positive) reviews))
   \<and> negative_count (analyze classify name reviews) =
     int (length (filter (\<lambda>r. label (classify_review classify r) = Negative) reviews))"
  by (simp add: analyze_def Let_def count_label_def filter_map comp_def)

section \<open>Claims\<close>

text \<open>
  C10. Try Again in app.py deletes every session entry except \<open>current_view\<close>, then sets
  \<open>current_view\<close> to \<open>input\<close> (and \<open>page_refresh\<close> to true, so the session holds exactly these
  two entries); Try Again in pages/1\_Results.py deletes every entry, so the session is
  empty. After either action there is no \<open>submitted_link\<close> entry.
\<close>

theorem try_again_clears_session:
  "delete_all_but_current_view st = filter (\<lambda>p. fst p = ''current_view'') st
   \<and> map_of (try_again_app st) =
       [''current_view'' \<mapsto> Str ''input'', ''page_refresh'' \<mapsto> Flag True]
   \<and> try_again_results st = []
   \<and> map_of (try_again_app st) ''submitted_link'' = None
   \<and> map_of (try_again_results st) ''submitted_link'' = None"
proof -
  have app: "map_of (try_again_app st) =
               [''current_view'' \<mapsto> Str ''input'', ''page_refresh'' \<mapsto> Flag True]"
    by (rule ext)
      (simp add: try_again_app_def AList.update_conv' delete_all_but_current_view_eq
        map_of_filter_key)
  have "map_of (try_again_app st) ''submitted_link'' = None"
    unfolding app by simp
  then show ?thesis
    using app by (simp add: delete_all_but_current_view_eq try_again_results_eq)
qed

text \<open>
  C1. When the classifier signals an error for the review at position \<open>i\<close>, the batch is
  not aborted. The loop over the reviews, with the recovery around each classifier call,
  ends normally and yields the detailed results of the analysis: no error is its
  outcome. There is one entry per review; the entry at position \<open>i\<close> pairs that review
  with the neutral label at confidence 0; every review that the classifier succeeds on,
  before or after position \<open>i\<close>, keeps the classification the classifier gave it; and
  both counts range over all reviews. \<^verbatim>\<open>predict_sentiment_from_reviews\<close> hands this
  result on to its caller. When the failing review is the only one, both counts are 0
  and the overall sentiment is neutral.
\<close>

theorem classifier_failure_recorded_neutral:
  assumes "i < length reviews"
    and "body (reviews ! i) = Some b"
    and "classify b = Inl e"
  shows "classify_batch (classify_guarded classify) reviews =
        Inr (detailed_results (analyze classify name reviews))
    \<and> length (detailed_results (analyze classify name reviews)) = length reviews
    \<and> detailed_results (analyze classify name reviews) ! i = (reviews ! i, neutral_zero)
    \<and> (\<forall>j b' c. j < length reviews \<and> body (reviews ! j) = Some b' \<and> b' \<noteq> [] \<and>
          classify b' = Inr c \<longrightarrow>
          detailed_results (analyze classify name reviews) ! j = (reviews ! j, c))
    \<and> positive_count (analyze classify name reviews) =
        int (length (filter (\<lambda>r. label (classify_review classify r) = Positive) reviews))
    \<and> negative_count (analyze classify name reviews) =
        int (length (filter (\<lambda>r. label (classify_review classify r) = Negative) reviews))
    \<and> snd (predict_sentiment_from_reviews (spec_analyzer classify name) fmt st reviews) =
        (overall_sentiment (analyze classify name reviews),
         score (analyze classify name reviews),
         positive_count (analyze classify name reviews),
         negative_count (analyze classify name reviews),
         detailed_results (analyze classify name reviews), name)
    \<and> (length reviews = 1 \<longrightarrow>
         positive_count (analyze classify name reviews) = 0 \<and>
         negative_count (analyze classify name reviews) = 0 \<and>
         overall_sentiment (analyze classify name reviews) = Neutral)"
proof -
  have nonempty: "reviews \<noteq> []"
    using assms(1) by auto
  have failed: "classify_review classify (reviews ! i) = neutral_zero"
    using assms(2,3) by (simp add: classify_review_def)
  have batch: "classify_batch (classify_guarded classify) reviews =
      Inr (detailed_results (analyze classify name reviews))"
    by (simp add: classify_batch_guarded analyze_detailed)
  have len: "length (detailed_results (analyze classify name reviews)) = length reviews"
    by (simp add: analyze_detailed)
  have entry: "detailed_results (analyze classify name reviews) ! i = (reviews ! i, neutral_zero)"
    using assms(1) failed by (simp add: analyze_detailed)
  have others: "\<forall>j b' c. j < length reviews \<and> body (reviews ! j) = Some b' \<and> b' \<noteq> [] \<and>
      classify b' = Inr c \<longrightarrow>
      detailed_results (analyze classify name reviews) ! j = (reviews ! j, c)"
    by (simp add: analyze_detailed classify_review_def)
  have single: "length reviews = 1 \<longrightarrow>
      positive_count (analyze classify name reviews) = 0 \<and>
      negative_count (analyze classify name reviews) = 0 \<and>
      overall_sentiment (analyze classify name reviews) = Neutral"
  proof
    assume one: "length reviews = 1"
    with assms(1) have i0: "i = 0" by simp
    from one obtain r where r: "reviews = [r]"
      by (cases reviews) auto
    from r i0 failed have "classify_review classify r = neutral_zero" by simp
    with r show "positive_count (analyze classify name reviews) = 0 \<and>
        negative_count (analyze classify name reviews) = 0 \<and>
        overall_sentiment (analyze classify name reviews) = Neutral"
      by (simp add: analyze_def Let_def count_label_def neutral_zero_def)
  qed
  note out = spec_analyzer_out[OF nonempty, of classify name fmt st]
  note counts = analyze_counts_all[of classify name reviews]
  from batch len entry others counts out single show ?thesis
    by (intro conjI) blast+
qed

theorem classifier_failure_recorded_neutral_witness:
  "1 < length scenario_c_batch
   \<and> body (scenario_c_batch ! 1) = Some ''unreadable''
   \<and> scenario_classify ''unreadable'' = Inl ClassificationFailure
   \<and> classify_batch (classify_guarded scenario_classify) scenario_c_batch =
       Inr (detailed_results (analyze scenario_classify ''model'' scenario_c_batch))
   \<and> length (detailed_results (analyze scenario_classify ''model'' scenario_c_batch)) = 3
   \<and> detailed_results (analyze scenario_classify ''model'' scenario_c_batch) ! 0 =
       (review_of ''Great product, love it!'', \<lparr>label = Positive, confidence = 0.9\<rparr>)
   \<and> detailed_results (analyze scenario_classify ''model'' scenario_c_batch) ! 1 =
       (review_of ''unreadable'', \<lparr>label = Neutral, confidence = 0\<rparr>)
   \<and> detailed_results (analyze scenario_classify ''model'' scenario_c_batch) ! 2 =
       (review_of ''Terrible, broke in a day'', \<lparr>label = Negative, confidence = 0.8\<rparr>)
   \<and> positive_count (analyze scenario_classify ''model'' scenario_c_batch) = 1
   \<and> negative_count (analyze scenario_classify ''model'' scenario_c_batch) = 1
   \<and> 0 < length scenario_c
   \<and> body (scenario_c ! 0) = Some ''unreadable''
   \<and> detailed_results (analyze scenario_classify ''model'' scenario_c) ! 0 =
       (review_of ''unreadable'', \<lparr>label = Neutral, confidence = 0\<rparr>)
   \<and> positive_count (analyze scenario_classify ''model'' scenario_c) = 0
   \<and> negative_count (analyze scenario_classify ''model'' scenario_c) = 0
   \<and> overall_sentiment (analyze scenario_classify ''model'' scenario_c) = Neutral"
proof -
  let ?r = "analyze scenario_classify ''model'' scenario_c_batch"
  have h1: "1 < length scenario_c_batch"
    by (simp add: scenario_c_batch_def)
  have h2: "body (scenario_c_batch ! 1) = Some ''unreadable''"
    by (simp add: scenario_c_batch_def review_of_def)
  have h3: "scenario_classify ''unreadable'' = Inl ClassificationFailure"
    by (simp add: scenario_classify_def)
  note t = classifier_failure_recorded_neutral[where i = 1 and reviews = scenario_c_batch
      and b = "''unreadable''" and classify = scenario_classify and e = ClassificationFailure
      and name = "''model''" and fmt = scenario_format and st = "[]", OF h1 h2 h3]
  from t have batch: "classify_batch (classify_guarded scenario_classify) scenario_c_batch =
      Inr (detailed_results ?r)"
    by blast
  from t have len: "length (detailed_results ?r) = 3"
    by (simp add: scenario_c_batch_def)
  from t have e1: "detailed_results ?r ! 1 = (scenario_c_batch ! 1, neutral_zero)"
    by blast
  from t have others: "\<forall>j b' c. j < length scenario_c_batch \<and>
      body (scenario_c_batch ! j) = Some b' \<and> b' \<noteq> [] \<and> scenario_classify b' = Inr c \<longrightarrow>
      detailed_results ?r ! j = (scenario_c_batch ! j, c)"
    by blast
  have "0 < length scenario_c_batch \<and>
      body (scenario_c_batch ! 0) = Some ''Great product, love it!'' \<and>
      ''Great product, love it!'' \<noteq> [] \<and>
      scenario_classify ''Great product, love it!'' = Inr \<lparr>label = Positive, confidence = 0.9\<rparr>"
    by (simp add: scenario_c_batch_def review_of_def scenario_classify_def)
  with others have e0: "detailed_results ?r ! 0 =
      (scenario_c_batch ! 0, \<lparr>label = Positive, confidence = 0.9\<rparr>)"
    by blast
  have "2 < length scenario_c_batch \<and>
      body (scenario_c_batch ! 2) = Some ''Terrible, broke in a day'' \<and>
      ''Terrible, broke in a day'' \<noteq> [] \<and>
      scenario_classify ''Terrible, broke in a day'' = Inr \<lparr>label = Negative, confidence = 0.8\<rparr>"
    by (simp add: scenario_c_batch_def review_of_def scenario_classify_def)
  with others have e2: "detailed_results ?r ! 2 =
      (scenario_c_batch ! 2, \<lparr>label = Negative, confidence = 0.8\<rparr>)"
    by blast
  from t have pos: "positive_count ?r = 1" and neg: "negative_count ?r = 1"
    by (simp_all add: scenario_c_batch_def review_of_def classify_review_def
        scenario_classify_def neutral_zero_def)
  let ?s = "analyze scenario_classify ''model'' scenario_c"
  have g1: "0 < length scenario_c"
    by (simp add: scenario_c_def)
  have g2: "body (scenario_c ! 0) = Some ''unreadable''"
    by (simp add: scenario_c_def review_of_def)
  have one: "length scenario_c = 1"
    by (simp add: scenario_c_def)
  note u = classifier_failure_recorded_neutral[where i = 0 and reviews = scenario_c
      and b = "''unreadable''" and classify = scenario_classify and e = ClassificationFailure
      and name = "''model''" and fmt = scenario_format and st = "[]", OF g1 g2 h3]
  from u have s0: "detailed_results ?s ! 0 = (scenario_c ! 0, neutral_zero)"
    by blast
  from u one have single: "positive_count ?s = 0 \<and> negative_count ?s = 0 \<and>
      overall_sentiment ?s = Neutral"
    by blast
  from h1 h2 h3 batch len e0 e1 e2 pos neg g1 g2 s0 single show ?thesis
    by (simp add: scenario_c_batch_def scenario_c_def neutral_zero_def)
qed

text \<open>
  C2, as the code has it. \<^verbatim>\<open>predict_sentiment_from_reviews\<close> performs no I/O: carrying
  out its effects changes the session and leaves the page as it was, and none of its
  effects is a \<open>Display\<close>. Its effect on the session is to write the entries
  \<open>sentiment_distribution\<close>, \<open>sentiment_score\<close> and \<open>model_name\<close>, and the entry
  \<open>avg_confidence\<close> when the average confidence is truthy; when it is absent or 0 that
  entry is left as it was. Every other session entry is left as it was, and the returned
  tuple does not depend on the session.
\<close>

theorem predict_writes_only_its_entries:
  "(k \<notin> {''sentiment_distribution'', ''sentiment_score'', ''model_name'', ''avg_confidence''} \<longrightarrow>
      map_of (fst (predict_sentiment_from_reviews an fmt st rs)) k = map_of st k)
   \<and> map_of (fst (predict_sentiment_from_reviews an fmt st rs)) ''sentiment_distribution'' =
       Some (Fig (fst (create_visualizations an (analyze_reviews an rs))))
   \<and> map_of (fst (predict_sentiment_from_reviews an fmt st rs)) ''sentiment_score'' =
       Some (Fig (snd (create_visualizations an (analyze_reviews an rs))))
   \<and> map_of (fst (predict_sentiment_from_reviews an fmt st rs)) ''model_name'' =
       Some (Str (case model_name (analyze_reviews an rs) of
                    None \<Rightarrow> ''Sentiment Model'' | Some n \<Rightarrow> n))
   \<and> (average_confidence (analyze_reviews an rs) = None \<or>
      average_confidence (analyze_reviews an rs) = Some 0 \<longrightarrow>
        map_of (fst (predict_sentiment_from_reviews an fmt st rs)) ''avg_confidence'' =
          map_of st ''avg_confidence'')
   \<and> (\<forall>c. average_confidence (analyze_reviews an rs) = Some c \<and> c \<noteq> 0 \<longrightarrow>
        map_of (fst (predict_sentiment_from_reviews an fmt st rs)) ''avg_confidence'' =
          Some (Str (fmt c)))
   \<and> snd (predict_sentiment_from_reviews an fmt st' rs) =
       snd (predict_sentiment_from_reviews an fmt st rs)
   \<and> fold run_effect (predict_effects an fmt rs) (st, page) =
       (fst (predict_sentiment_from_reviews an fmt st rs), page)
   \<and> (\<forall>msg. Display msg \<notin> set (predict_effects an fmt rs))"
proof -
  have frame: "k \<notin> {''sentiment_distribution'', ''sentiment_score'', ''model_name'',
      ''avg_confidence''} \<longrightarrow>
      map_of (fst (predict_sentiment_from_reviews an fmt st rs)) k = map_of st k"
    by (simp add: predict_session)
  have dist: "map_of (fst (predict_sentiment_from_reviews an fmt st rs))
      ''sentiment_distribution'' =
      Some (Fig (fst (create_visualizations an (analyze_reviews an rs))))"
    by (simp add: predict_session)
  have sc: "map_of (fst (predict_sentiment_from_reviews an fmt st rs)) ''sentiment_score'' =
      Some (Fig (snd (create_visualizations an (analyze_reviews an rs))))"
    by (simp add: predict_session)
  have name: "map_of (fst (predict_sentiment_from_reviews an fmt st rs)) ''model_name'' =
      Some (Str (case model_name (analyze_reviews an rs) of
                   None \<Rightarrow> ''Sentiment Model'' | Some n \<Rightarrow> n))"
    by (simp add: predict_session)
  have falsy: "average_confidence (analyze_reviews an rs) = None \<or>
      average_confidence (analyze_reviews an rs) = Some 0 \<longrightarrow>
        map_of (fst (predict_sentiment_from_reviews an fmt st rs)) ''avg_confidence'' =
          map_of st ''avg_confidence''"
    by (auto simp: predict_session)
  have truthy: "\<forall>c. average_confidence (analyze_reviews an rs) = Some c \<and> c \<noteq> 0 \<longrightarrow>
        map_of (fst (predict_sentiment_from_reviews an fmt st rs)) ''avg_confidence'' =
          Some (Str (fmt c))"
    by (simp add: predict_session)
  have out: "snd (predict_sentiment_from_reviews an fmt st' rs) =
      snd (predict_sentiment_from_reviews an fmt st rs)"
    by (simp add: predict_out)
  have run: "fold run_effect (predict_effects an fmt rs) (st, page) =
      (fst (predict_sentiment_from_reviews an fmt st rs), page)"
    by (rule predict_effects_run)
  have quiet: "\<forall>msg. Display msg \<notin> set (predict_effects an fmt rs)"
    by (simp add: predict_effects_no_display)
  from frame dist sc name falsy truthy out run quiet show ?thesis
    by (intro conjI)
qed

theorem predict_writes_only_its_entries_witness:
  "''submitted_link'' \<notin>
      {''sentiment_distribution'', ''sentiment_score'', ''model_name'', ''avg_confidence''}
   \<and> map_of (fst (predict_sentiment_from_reviews (spec_analyzer scenario_classify ''model'')
         scenario_format scenario_session scenario_a)) ''submitted_link'' =
       Some (Str ''https://www.amazon.com/dp/B000'')
   \<and> map_of (fst (predict_sentiment_from_reviews (spec_analyzer scenario_classify ''model'')
         scenario_format scenario_session scenario_a)) ''model_name'' = Some (Str ''model'')
   \<and> average_confidence (analyze_reviews (spec_analyzer scenario_classify ''model'') scenario_a) =
       Some (11 / 15)
   \<and> map_of (fst (predict_sentiment_from_reviews (spec_analyzer scenario_classify ''model'')
         scenario_format scenario_session scenario_a)) ''avg_confidence'' = Some (Str ''0.73'')
   \<and> average_confidence (analyze_reviews (spec_analyzer scenario_classify ''model'') scenario_c) =
       Some 0
   \<and> map_of (fst (predict_sentiment_from_reviews (spec_analyzer scenario_classify ''model'')
         scenario_format scenario_session scenario_c)) ''avg_confidence'' = None
   \<and> snd (fold run_effect
         (predict_effects (spec_analyzer scenario_classify ''model'') scenario_format scenario_a)
         (scenario_session, [''Results Report''])) = [''Results Report'']"
proof -
  let ?an = "spec_analyzer scenario_classify ''model''"
  have h: "''submitted_link'' \<notin>
      {''sentiment_distribution'', ''sentiment_score'', ''model_name'', ''avg_confidence''}"
    by simp
  have m: "model_name (analyze scenario_classify ''model'' scenario_a) = Some ''model''"
    by (rule analyze_model_name) (simp add: scenario_a_def)
  have avg: "average_confidence (analyze_reviews ?an scenario_a) = Some (11 / 15)"
    by (simp add: spec_analyzer_def analyze_def Let_def scenario_a_def review_of_def
        classify_review_def scenario_classify_def)
  have nonzero: "(11 / 15 :: real) \<noteq> 0"
    by simp
  have zero: "average_confidence (analyze_reviews ?an scenario_c) = Some 0"
    by (simp add: spec_analyzer_def analyze_def Let_def scenario_c_def review_of_def
        classify_review_def scenario_classify_def neutral_zero_def)
  note a = predict_writes_only_its_entries[of "''submitted_link''" ?an scenario_format
      scenario_session scenario_a scenario_session "[''Results Report'']"]
  from a h have link: "map_of (fst (predict_sentiment_from_reviews ?an scenario_format
      scenario_session scenario_a)) ''submitted_link'' = map_of scenario_session ''submitted_link''"
    by blast
  from a have name: "map_of (fst (predict_sentiment_from_reviews ?an scenario_format
      scenario_session scenario_a)) ''model_name'' =
      Some (Str (case model_name (analyze_reviews ?an scenario_a) of
        None \<Rightarrow> ''Sentiment Model'' | Some n \<Rightarrow> n))"
    by blast
  from a avg nonzero have stored: "map_of (fst (predict_sentiment_from_reviews ?an
      scenario_format scenario_session scenario_a)) ''avg_confidence'' =
      Some (Str (scenario_format (11 / 15)))"
    by blast
  from a have run: "fold run_effect (predict_effects ?an scenario_format scenario_a)
      (scenario_session, [''Results Report'']) =
      (fst (predict_sentiment_from_reviews ?an scenario_format scenario_session scenario_a),
       [''Results Report''])"
    by blast
  note c = predict_writes_only_its_entries[of "''submitted_link''" ?an scenario_format
      scenario_session scenario_c scenario_session "[]"]
  from c zero have kept: "map_of (fst (predict_sentiment_from_reviews ?an scenario_format
      scenario_session scenario_c)) ''avg_confidence'' = map_of scenario_session ''avg_confidence''"
    by blast
  from h link name avg stored zero kept run m show ?thesis
    by (simp add: scenario_session_def scenario_format_def spec_analyzer_def)
qed

text \<open>
  C2, as the claim states it, fails: in the session left by the input page, the call on
  the three reviews of scenario A returns a session that differs from the one it
  started with.
\<close>

theorem predict_mutates_session_counterexample:
  "fst (predict_sentiment_from_reviews (spec_analyzer scenario_classify ''model'')
          scenario_format scenario_session scenario_a) \<noteq> scenario_session"
proof
  assume "fst (predict_sentiment_from_reviews (spec_analyzer scenario_classify ''model'')
      scenario_format scenario_session scenario_a) = scenario_session"
  then have "map_of (fst (predict_sentiment_from_reviews
      (spec_analyzer scenario_classify ''model'') scenario_format scenario_session scenario_a))
      ''sentiment_score'' = map_of scenario_session ''sentiment_score''"
    by simp
  then show False
    by (simp add: predict_session scenario_session_def)
qed

text \<open>
  C3. On the empty input the analysis of the specification returns the default result
  (neutral, score 0.5, both counts 0, no average confidence, no detailed result), and
  the result pages do the same without calling the analyzer: they show a warning, leave
  the session untouched and continue with neutral, 0.5, 0, 0 and the empty list.
\<close>

theorem empty_input_default_result:
  "analyze classify name [] =
     \<lparr>overall_sentiment = Neutral, score = 0.5, positive_count = 0, negative_count = 0,
      average_confidence = None, detailed_results = [], model_name = None\<rparr>
   \<and> analyze_or_default an fmt st [] =
       (st, Some ''No reviews found or failed to scrape reviews.'',
        (Neutral, 0.5, 0, 0, [], ''No Model''), ''Amazon Product'')"
  by (simp add: analyze_def analyze_or_default_def)

text \<open>
  C4. For a non-empty review sequence the overall sentiment is positive when the
  positive reviews outnumber the negative ones, negative in the opposite case and
  neutral when the two counts are equal, the counts being those of the labels in the
  detailed results; \<^verbatim>\<open>predict_sentiment_from_reviews\<close> returns it as its first component.
  Labels positive, negative, neutral, in this order, give neutral with score 0.5.
\<close>

theorem overall_sentiment_majority_tie_neutral:
  assumes "reviews \<noteq> []"
  shows "overall_sentiment (analyze classify name reviews) =
      (if count_label Negative (detailed_results (analyze classify name reviews))
            < count_label Positive (detailed_results (analyze classify name reviews))
       then Positive
       else if count_label Positive (detailed_results (analyze classify name reviews))
            < count_label Negative (detailed_results (analyze classify name reviews))
       then Negative
       else Neutral)
    \<and> fst (snd (predict_sentiment_from_reviews (spec_analyzer classify name) fmt st reviews)) =
        overall_sentiment (analyze classify name reviews)
    \<and> (map (\<lambda>d. label (snd d)) (detailed_results (analyze classify name reviews)) =
          [Positive, Negative, Neutral] \<longrightarrow>
        positive_count (analyze classify name reviews) = 1 \<and>
        negative_count (analyze classify name reviews) = 1 \<and>
        overall_sentiment (analyze classify name reviews) = Neutral \<and>
        score (analyze classify name reviews) = 0.5)"
proof -
  have majority: "overall_sentiment (analyze classify name reviews) =
      (if count_label Negative (detailed_results (analyze classify name reviews))
            < count_label Positive (detailed_results (analyze classify name reviews))
       then Positive
       else if count_label Positive (detailed_results (analyze classify name reviews))
            < count_label Negative (detailed_results (analyze classify name reviews))
       then Negative
       else Neutral)"
    using analyze_overall[OF assms, of classify name]
    by (simp add: analyze_positive_count[symmetric] analyze_negative_count[symmetric])
  have scenario: "positive_count (analyze classify name reviews) = 1 \<and>
      negative_count (analyze classify name reviews) = 1 \<and>
      overall_sentiment (analyze classify name reviews) = Neutral \<and>
      score (analyze classify name reviews) = 0.5"
    if "map (\<lambda>d. label (snd d)) (detailed_results (analyze classify name reviews)) =
          [Positive, Negative, Neutral]"
  proof -
    have p: "positive_count (analyze classify name reviews) = 1"
      unfolding analyze_positive_count count_label_labels that by simp
    have n: "negative_count (analyze classify name reviews) = 1"
      unfolding analyze_negative_count count_label_labels that by simp
    show ?thesis
      using analyze_overall[OF assms, of classify name] analyze_score[OF assms, of classify name]
      by (simp add: p n)
  qed
  show ?thesis
    using majority scenario spec_analyzer_out[OF assms, of classify name fmt st]
    by simp
qed

theorem overall_sentiment_majority_tie_neutral_witness:
  "scenario_a \<noteq> []
   \<and> map (\<lambda>d. label (snd d)) (detailed_results (analyze scenario_classify ''model'' scenario_a)) =
       [Positive, Negative, Neutral]
   \<and> positive_count (analyze scenario_classify ''model'' scenario_a) = 1
   \<and> negative_count (analyze scenario_classify ''model'' scenario_a) = 1
   \<and> overall_sentiment (analyze scenario_classify ''model'' scenario_a) = Neutral
   \<and> score (analyze scenario_classify ''model'' scenario_a) = 0.5"
proof -
  have h1: "scenario_a \<noteq> []"
    by (simp add: scenario_a_def)
  have h2: "map (\<lambda>d. label (snd d)) (detailed_results (analyze scenario_classify ''model'' scenario_a)) =
      [Positive, Negative, Neutral]"
    by (simp add: analyze_detailed scenario_a_def review_of_def classify_review_def
        scenario_classify_def)
  from overall_sentiment_majority_tie_neutral[OF h1, of scenario_classify "''model''"
      scenario_format "[]"] h2
  have "positive_count (analyze scenario_classify ''model'' scenario_a) = 1 \<and>
      negative_count (analyze scenario_classify ''model'' scenario_a) = 1 \<and>
      overall_sentiment (analyze scenario_classify ''model'' scenario_a) = Neutral \<and>
      score (analyze scenario_classify ''model'' scenario_a) = 0.5"
    by blast
  with h1 h2 show ?thesis
    by blast
qed

text \<open>
  C5. For a non-empty review sequence the score is the positive count divided by the
  sum of the positive and the negative count when that sum is not zero, and 0.5
  otherwise; \<^verbatim>\<open>predict_sentiment_from_reviews\<close> returns it as its second component.
  Three positive labels and one negative label give positive with score 0.75.
\<close>

theorem score_is_positive_share:
  assumes "reviews \<noteq> []"
  shows "(positive_count (analyze classify name reviews) +
          negative_count (analyze classify name reviews) \<noteq> 0 \<longrightarrow>
        score (analyze classify name reviews) =
          real_of_int (positive_count (analyze classify name reviews)) /
          real_of_int (positive_count (analyze classify name reviews) +
                       negative_count (analyze classify name reviews)))
    \<and> (positive_count (analyze classify name reviews) +
          negative_count (analyze classify name reviews) = 0 \<longrightarrow>
        score (analyze classify name reviews) = 0.5)
    \<and> positive_count (analyze classify name reviews) =
        count_label Positive (detailed_results (analyze classify name reviews))
    \<and> negative_count (analyze classify name reviews) =
        count_label Negative (detailed_results (analyze classify name reviews))
    \<and> fst (snd (snd (predict_sentiment_from_reviews (spec_analyzer classify name)
          fmt st reviews))) = score (analyze classify name reviews)
    \<and> (count_label Positive (detailed_results (analyze classify name reviews)) = 3 \<and>
        count_label Negative (detailed_results (analyze classify name reviews)) = 1 \<longrightarrow>
        overall_sentiment (analyze classify name reviews) = Positive \<and>
        score (analyze classify name reviews) = 0.75)"
proof -
  have scenario: "overall_sentiment (analyze classify name reviews) = Positive \<and>
      score (analyze classify name reviews) = 0.75"
    if "count_label Positive (detailed_results (analyze classify name reviews)) = 3"
      and "count_label Negative (detailed_results (analyze classify name reviews)) = 1"
  proof -
    have p: "positive_count (analyze classify name reviews) = 3"
      using that(1) by (simp add: analyze_positive_count)
    have n: "negative_count (analyze classify name reviews) = 1"
      using that(2) by (simp add: analyze_negative_count)
    show ?thesis
      using analyze_overall[OF assms, of classify name] analyze_score[OF assms, of classify name]
      by (simp add: p n)
  qed
  have share: "score (analyze classify name reviews) =
      (if positive_count (analyze classify name reviews) +
          negative_count (analyze classify name reviews) \<noteq> 0
       then real_of_int (positive_count (analyze classify name reviews)) /
            real_of_int (positive_count (analyze classify name reviews) +
                         negative_count (analyze classify name reviews))
       else 0.5)"
    by (rule analyze_score[OF assms])
  have out: "fst (snd (snd (predict_sentiment_from_reviews (spec_analyzer classify name)
      fmt st reviews))) = score (analyze classify name reviews)"
    by (simp add: spec_analyzer_out[OF assms])
  have pos: "positive_count (analyze classify name reviews) =
      count_label Positive (detailed_results (analyze classify name reviews))"
    by (rule analyze_positive_count)
  have neg: "negative_count (analyze classify name reviews) =
      count_label Negative (detailed_results (analyze classify name reviews))"
    by (rule analyze_negative_count)
  from share have nonzero: "positive_count (analyze classify name reviews) +
          negative_count (analyze classify name reviews) \<noteq> 0 \<longrightarrow>
        score (analyze classify name reviews) =
          real_of_int (positive_count (analyze classify name reviews)) /
          real_of_int (positive_count (analyze classify name reviews) +
                       negative_count (analyze classify name reviews))"
    by (simp split: if_splits)
  from share have zero: "positive_count (analyze classify name reviews) +
          negative_count (analyze classify name reviews) = 0 \<longrightarrow>
        score (analyze classify name reviews) = 0.5"
    by (simp split: if_splits)
  from scenario have sc: "count_label Positive (detailed_results (analyze classify name reviews)) = 3 \<and>
        count_label Negative (detailed_results (analyze classify name reviews)) = 1 \<longrightarrow>
        overall_sentiment (analyze classify name reviews) = Positive \<and>
        score (analyze classify name reviews) = 0.75"
    by blast
  from nonzero zero pos neg out sc show ?thesis
    by (intro conjI)
qed

theorem score_is_positive_share_witness:
  "scenario_d \<noteq> []
   \<and> count_label Positive (detailed_results (analyze scenario_classify ''model'' scenario_d)) = 3
   \<and> count_label Negative (detailed_results (analyze scenario_classify ''model'' scenario_d)) = 1
   \<and> positive_count (analyze scenario_classify ''model'' scenario_d) +
       negative_count (analyze scenario_classify ''model'' scenario_d) \<noteq> 0
   \<and> overall_sentiment (analyze scenario_classify ''model'' scenario_d) = Positive
   \<and> score (analyze scenario_classify ''model'' scenario_d) = 0.75
   \<and> scenario_c \<noteq> []
   \<and> positive_count (analyze scenario_classify ''model'' scenario_c) +
       negative_count (analyze scenario_classify ''model'' scenario_c) = 0
   \<and> score (analyze scenario_classify ''model'' scenario_c) = 0.5"
proof -
  have d: "scenario_d \<noteq> []"
    by (simp add: scenario_d_def)
  have ds: "detailed_results (analyze scenario_classify ''model'' scenario_d) =
      [(review_of ''Great product, love it!'', \<lparr>label = Positive, confidence = 0.9\<rparr>),
       (review_of ''Great product, love it!'', \<lparr>label = Positive, confidence = 0.9\<rparr>),
       (review_of ''Terrible, broke in a day'', \<lparr>label = Negative, confidence = 0.8\<rparr>),
       (review_of ''Great product, love it!'', \<lparr>label = Positive, confidence = 0.9\<rparr>)]"
    by (simp add: analyze_detailed scenario_d_def review_of_def classify_review_def
        scenario_classify_def)
  have p: "count_label Positive (detailed_results (analyze scenario_classify ''model'' scenario_d)) = 3"
    unfolding ds by (simp add: count_label_def)
  have n: "count_label Negative (detailed_results (analyze scenario_classify ''model'' scenario_d)) = 1"
    unfolding ds by (simp add: count_label_def)
  note td = score_is_positive_share[OF d, of scenario_classify "''model''" scenario_format "[]"]
  from td p n have sum: "positive_count (analyze scenario_classify ''model'' scenario_d) +
       negative_count (analyze scenario_classify ''model'' scenario_d) \<noteq> 0"
    by simp
  from td p n have res: "overall_sentiment (analyze scenario_classify ''model'' scenario_d) = Positive
      \<and> score (analyze scenario_classify ''model'' scenario_d) = 0.75"
    by blast
  have c: "scenario_c \<noteq> []"
    by (simp add: scenario_c_def)
  have cs: "detailed_results (analyze scenario_classify ''model'' scenario_c) =
      [(review_of ''unreadable'', neutral_zero)]"
    by (simp add: analyze_detailed scenario_c_def review_of_def classify_review_def
        scenario_classify_def)
  note tc = score_is_positive_share[OF c, of scenario_classify "''model''" scenario_format "[]"]
  from tc have zero: "positive_count (analyze scenario_classify ''model'' scenario_c) +
       negative_count (analyze scenario_classify ''model'' scenario_c) = 0"
    by (simp add: cs count_label_def neutral_zero_def)
  with tc have half: "score (analyze scenario_classify ''model'' scenario_c) = 0.5"
    by blast
  from d p n sum res c zero half show ?thesis
    by blast
qed

text \<open>
  C6. For every review sequence the positive and the negative count together do not
  exceed the number of reviews: they fall short of it by exactly the number of neutral
  classifications. The same bound holds for the counts that the result pages work with.
\<close>

theorem counts_bounded_by_review_count:
  "positive_count (analyze classify name reviews) +
     negative_count (analyze classify name reviews) \<le> int (length reviews)
   \<and> positive_count (analyze classify name reviews) +
       negative_count (analyze classify name reviews) =
       int (length reviews) - count_label Neutral (detailed_results (analyze classify name reviews))
   \<and> 0 \<le> positive_count (analyze classify name reviews)
   \<and> 0 \<le> negative_count (analyze classify name reviews)
   \<and> (case analyze_or_default (spec_analyzer classify name) fmt st reviews of
        (st', warning, (sentiment, sc, pos_count, neg_count, details, model), title) \<Rightarrow>
          pos_count + neg_count \<le> int (length reviews))"
proof -
  let ?r = "analyze classify name reviews"
  have len: "length (detailed_results ?r) = length reviews"
    by (simp add: analyze_detailed)
  have total: "positive_count ?r + negative_count ?r + count_label Neutral (detailed_results ?r) =
      int (length reviews)"
    using count_label_total[of "detailed_results ?r"]
    by (simp add: analyze_positive_count[symmetric] analyze_negative_count[symmetric] len)
  have neutral: "0 \<le> count_label Neutral (detailed_results ?r)"
    by (rule count_label_nonneg)
  have bound: "positive_count ?r + negative_count ?r \<le> int (length reviews)"
    using total neutral by linarith
  have pos: "0 \<le> positive_count ?r"
    by (simp add: analyze_positive_count count_label_nonneg)
  have neg: "0 \<le> negative_count ?r"
    by (simp add: analyze_negative_count count_label_nonneg)
  have pages: "(case analyze_or_default (spec_analyzer classify name) fmt st reviews of
        (st', warning, (sentiment, sc, pos_count, neg_count, details, model), title) \<Rightarrow>
          pos_count + neg_count \<le> int (length reviews))"
  proof (cases "reviews = []")
    case True
    then show ?thesis
      by (simp add: analyze_or_default_def)
  next
    case False
    have "fst (snd (snd (analyze_or_default (spec_analyzer classify name) fmt st reviews))) =
        (overall_sentiment ?r, score ?r, positive_count ?r, negative_count ?r,
         detailed_results ?r, name)"
      using False by (simp add: analyze_or_default_out spec_analyzer_out)
    with bound show ?thesis
      by (auto split: prod.splits)
  qed
  from bound total pos neg pages show ?thesis
    by simp
qed

text \<open>
  C7. For every review sequence the detailed results list the reviews in the order of
  the input, each paired with its own classification, also in what the result pages
  receive.
\<close>

theorem detailed_results_keep_input_order:
  "map fst (detailed_results (analyze classify name reviews)) = reviews
   \<and> map snd (detailed_results (analyze classify name reviews)) =
       map (classify_review classify) reviews
   \<and> (case analyze_or_default (spec_analyzer classify name) fmt st reviews of
        (st', warning, (sentiment, sc, pos_count, neg_count, details, model), title) \<Rightarrow>
          map fst details = reviews)"
proof -
  let ?r = "analyze classify name reviews"
  have order: "map fst (detailed_results ?r) = reviews"
    by (simp add: analyze_detailed comp_def)
  have cls: "map snd (detailed_results ?r) = map (classify_review classify) reviews"
    by (simp add: analyze_detailed comp_def)
  have pages: "(case analyze_or_default (spec_analyzer classify name) fmt st reviews of
        (st', warning, (sentiment, sc, pos_count, neg_count, details, model), title) \<Rightarrow>
          map fst details = reviews)"
  proof (cases "reviews = []")
    case True
    then show ?thesis
      by (simp add: analyze_or_default_def)
  next
    case False
    have "fst (snd (snd (analyze_or_default (spec_analyzer classify name) fmt st reviews))) =
        (overall_sentiment ?r, score ?r, positive_count ?r, negative_count ?r,
         detailed_results ?r, name)"
      using False by (simp add: analyze_or_default_out spec_analyzer_out)
    with order show ?thesis
      by (auto split: prod.splits)
  qed
  from order cls pages show ?thesis
    by simp
qed

text \<open>
  C8. With a deterministic analyzer, a second call of \<^verbatim>\<open>predict_sentiment_from_reviews\<close>
  on the same reviews, made in the session that the first call left, returns the same
  tuple and leaves that session as it is; the returned tuple is the same from any
  session. The same holds for the branch of the result pages around the call.
\<close>

theorem repeated_analysis_same_result:
  "predict_sentiment_from_reviews an fmt
      (fst (predict_sentiment_from_reviews an fmt st rs)) rs =
     predict_sentiment_from_reviews an fmt st rs
   \<and> snd (predict_sentiment_from_reviews an fmt st' rs) =
       snd (predict_sentiment_from_reviews an fmt st rs)
   \<and> analyze_or_default an fmt (fst (analyze_or_default an fmt st rs)) rs =
       analyze_or_default an fmt st rs"
  by (simp add: predict_idem predict_out analyze_or_default_idem)

text \<open>
  C9. \<^verbatim>\<open>predict_sentiment_from_reviews\<close> writes the session entry \<open>avg_confidence\<close> only
  when the average confidence is truthy. When the analyzer reports no average confidence
  or exactly 0, the entry is left as it was; otherwise it holds the formatted value. An
  analyzer result with average confidence 0 and the same result with none give the same
  returned tuple and the same \<open>avg_confidence\<close> entry, and the same session altogether
  when the two figures are the same.
\<close>

theorem avg_confidence_stored_only_when_truthy:
  "(average_confidence (analyze_reviews an rs) = None \<or>
    average_confidence (analyze_reviews an rs) = Some 0 \<longrightarrow>
      map_of (fst (predict_sentiment_from_reviews an fmt st rs)) ''avg_confidence'' =
        map_of st ''avg_confidence'')
   \<and> (\<forall>c. average_confidence (analyze_reviews an rs) = Some c \<and> c \<noteq> 0 \<longrightarrow>
        map_of (fst (predict_sentiment_from_reviews an fmt st rs)) ''avg_confidence'' =
          Some (Str (fmt c)))
   \<and> (average_confidence (analyze_reviews an rs) = Some 0 \<and>
      analyze_reviews an' rs = (analyze_reviews an rs)\<lparr>average_confidence := None\<rparr> \<longrightarrow>
        snd (predict_sentiment_from_reviews an' fmt st rs) =
          snd (predict_sentiment_from_reviews an fmt st rs) \<and>
        map_of (fst (predict_sentiment_from_reviews an' fmt st rs)) ''avg_confidence'' =
          map_of (fst (predict_sentiment_from_reviews an fmt st rs)) ''avg_confidence'')
   \<and> (average_confidence (analyze_reviews an rs) = Some 0 \<and>
      analyze_reviews an' rs = (analyze_reviews an rs)\<lparr>average_confidence := None\<rparr> \<and>
      create_visualizations an' (analyze_reviews an' rs) =
        create_visualizations an (analyze_reviews an rs) \<longrightarrow>
        predict_sentiment_from_reviews an' fmt st rs =
          predict_sentiment_from_reviews an fmt st rs)"
proof -
  have same: "predict_sentiment_from_reviews an' fmt st rs =
      predict_sentiment_from_reviews an fmt st rs"
    if "average_confidence (analyze_reviews an rs) = Some 0"
      and "analyze_reviews an' rs = (analyze_reviews an rs)\<lparr>average_confidence := None\<rparr>"
      and "create_visualizations an' (analyze_reviews an' rs) =
        create_visualizations an (analyze_reviews an rs)"
    using that(1) that(3)
    unfolding predict_sentiment_from_reviews_def Let_def that(2)
    by simp
  have full: "average_confidence (analyze_reviews an rs) = Some 0 \<and>
      analyze_reviews an' rs = (analyze_reviews an rs)\<lparr>average_confidence := None\<rparr> \<and>
      create_visualizations an' (analyze_reviews an' rs) =
        create_visualizations an (analyze_reviews an rs) \<longrightarrow>
        predict_sentiment_from_reviews an' fmt st rs =
          predict_sentiment_from_reviews an fmt st rs"
    using same by blast
  have falsy: "average_confidence (analyze_reviews an rs) = None \<or>
    average_confidence (analyze_reviews an rs) = Some 0 \<longrightarrow>
      map_of (fst (predict_sentiment_from_reviews an fmt st rs)) ''avg_confidence'' =
        map_of st ''avg_confidence''"
    by (auto simp: predict_session)
  have truthy: "\<forall>c. average_confidence (analyze_reviews an rs) = Some c \<and> c \<noteq> 0 \<longrightarrow>
        map_of (fst (predict_sentiment_from_reviews an fmt st rs)) ''avg_confidence'' =
          Some (Str (fmt c))"
    by (simp add: predict_session)
  have entry: "average_confidence (analyze_reviews an rs) = Some 0 \<and>
      analyze_reviews an' rs = (analyze_reviews an rs)\<lparr>average_confidence := None\<rparr> \<longrightarrow>
        snd (predict_sentiment_from_reviews an' fmt st rs) =
          snd (predict_sentiment_from_reviews an fmt st rs) \<and>
        map_of (fst (predict_sentiment_from_reviews an' fmt st rs)) ''avg_confidence'' =
          map_of (fst (predict_sentiment_from_reviews an fmt st rs)) ''avg_confidence''"
    by (simp add: predict_session predict_out)
  from falsy truthy entry full show ?thesis
    by (intro conjI)
qed

theorem avg_confidence_stored_only_when_truthy_witness:
  "average_confidence (analyze_reviews (spec_analyzer scenario_classify ''model'') scenario_c) =
     Some 0
   \<and> map_of (fst (predict_sentiment_from_reviews (spec_analyzer scenario_classify ''model'')
         scenario_format scenario_session scenario_c)) ''avg_confidence'' = None
   \<and> average_confidence (analyze_reviews (spec_analyzer scenario_classify ''model'') scenario_a) =
       Some (11 / 15)
   \<and> map_of (fst (predict_sentiment_from_reviews (spec_analyzer scenario_classify ''model'')
         scenario_format scenario_session scenario_a)) ''avg_confidence'' = Some (Str ''0.73'')
   \<and> predict_sentiment_from_reviews (without_average (spec_analyzer scenario_classify ''model''))
         scenario_format scenario_session scenario_c =
       predict_sentiment_from_reviews (spec_analyzer scenario_classify ''model'')
         scenario_format scenario_session scenario_c"
proof -
  let ?an = "spec_analyzer scenario_classify ''model''"
  have zero: "average_confidence (analyze_reviews ?an scenario_c) = Some 0"
    by (simp add: spec_analyzer_def analyze_def Let_def scenario_c_def review_of_def
        classify_review_def scenario_classify_def neutral_zero_def)
  have avg: "average_confidence (analyze_reviews ?an scenario_a) = Some (11 / 15)"
    by (simp add: spec_analyzer_def analyze_def Let_def scenario_a_def review_of_def
        classify_review_def scenario_classify_def)
  have nonzero: "(11 / 15 :: real) \<noteq> 0"
    by simp
  have other: "analyze_reviews (without_average ?an) scenario_c =
      (analyze_reviews ?an scenario_c)\<lparr>average_confidence := None\<rparr>"
    by (simp add: without_average_def)
  have figs: "create_visualizations (without_average ?an)
        (analyze_reviews (without_average ?an) scenario_c) =
      create_visualizations ?an (analyze_reviews ?an scenario_c)"
    by (simp add: without_average_def spec_analyzer_def derive_visualizations_def)
  note c = avg_confidence_stored_only_when_truthy[of ?an scenario_c scenario_format
      scenario_session "without_average ?an"]
  from c zero have kept: "map_of (fst (predict_sentiment_from_reviews ?an scenario_format
      scenario_session scenario_c)) ''avg_confidence'' = map_of scenario_session ''avg_confidence''"
    by blast
  from c zero other figs have same: "predict_sentiment_from_reviews (without_average ?an)
      scenario_format scenario_session scenario_c =
      predict_sentiment_from_reviews ?an scenario_format scenario_session scenario_c"
    by blast
  note a = avg_confidence_stored_only_when_truthy[of ?an scenario_a scenario_format
      scenario_session ?an]
  from a avg nonzero have stored: "map_of (fst (predict_sentiment_from_reviews ?an
      scenario_format scenario_session scenario_a)) ''avg_confidence'' =
      Some (Str (scenario_format (11 / 15)))"
    by blast
  from zero kept avg stored same show ?thesis
    by (simp add: scenario_session_def scenario_format_def)
qed

end
